theory Spec2Isabelle
  imports Main "HOL-Library.Word"
begin

section \<open>Machine integers and the clock\<close>

text \<open>
  Timestamps are Go \<^verbatim>\<open>int64\<close> values (seconds since the Unix epoch). They are
  modelled as 64-bit words: \<open>+\<close> and \<open>-\<close> wrap around as Go's do, and the
  comparisons \<^verbatim>\<open>>=\<close>, \<^verbatim>\<open><=\<close>, \<^verbatim>\<open><\<close> of the source are the signed comparisons
  \<open>word_sle\<close> and \<open>word_sless\<close>. Tag ids are Go \<^verbatim>\<open>int\<close> values that are only
  compared for equality; they are modelled as \<open>int\<close>.

  The wall clock is read through \<^verbatim>\<open>utils.CurrentUnixTimestamp\<close> and
  \<^verbatim>\<open>utils.CurrentTime\<close>. Every operation below takes the reading as its parameter
  \<open>now\<close>; all readings made during one call are taken to be this one value.
  What the source prints on standard output is not modelled.
\<close>

type_synonym int64 = "64 word"

section \<open>The part of Go's \<^verbatim>\<open>time\<close> package that the program calls\<close>

text \<open>
  \<^verbatim>\<open>time.Unix(sec, 0).UTC().Date()\<close>, \<^verbatim>\<open>time.Now().UTC().Date()\<close>,
  \<^verbatim>\<open>time.Parse\<close> and \<^verbatim>\<open>Time.Unix\<close> belong to the Go standard library. They are
  transcribed here from the library (the algorithm of Go 1.20, the version the
  repository builds with): a \<^verbatim>\<open>Time\<close> in UTC is determined by its Unix seconds, and
  the calendar computations run on the unsigned count of seconds since 1 January of
  the year \<open>absoluteZeroYear\<close>.
\<close>

definition absoluteZeroYear :: int where
  "absoluteZeroYear = - 292277022399"

definition unixToAbsolute :: int64 where
  \<comment> \<open>\<^verbatim>\<open>unixToInternal + internalToAbsolute\<close>\<close>
  "unixToAbsolute = 9223372028715321600"

definition zeroTimeUnix :: int64 where
  \<comment> \<open>\<^verbatim>\<open>time.Time{}.Unix()\<close>: the zero time is 1 January of the year 1, 00:00:00 UTC\<close>
  "zeroTimeUnix = - 62135596800"

definition isLeap :: "int \<Rightarrow> bool" where
  "isLeap year \<longleftrightarrow> year mod 4 = 0 \<and> (year mod 100 \<noteq> 0 \<or> year mod 400 = 0)"

definition time_daysBefore :: "int list" where
  "time_daysBefore = [0, 31, 59, 90, 120, 151, 181, 212, 243, 273, 304, 334, 365]"

definition daysIn :: "int \<Rightarrow> int \<Rightarrow> int" where
  \<comment> \<open>called for months from 1 to 12 only\<close>
  "daysIn m year =
     (if m = 2 \<and> isLeap year then 29
      else time_daysBefore ! nat m - time_daysBefore ! nat (m - 1))"

definition monthDay :: "int \<Rightarrow> int \<Rightarrow> int \<times> int" where
  \<comment> \<open>second half of \<^verbatim>\<open>absDate\<close>: month and day of the month from the day of the year
      (from 0 to 365)\<close>
  "monthDay year yday =
     (if isLeap year \<and> yday = 31 + 29 - 1 then (2, 29)
      else
        let day = (if isLeap year \<and> yday > 31 + 29 - 1 then yday - 1 else yday);
            month = day div 31;
            endDay = time_daysBefore ! nat (month + 1);
            month' = (if day \<ge> endDay then month + 1 else month);
            beginDay = (if day \<ge> endDay then endDay else time_daysBefore ! nat month)
        in (month' + 1, day - beginDay + 1))"

definition absDate :: "int \<Rightarrow> int \<times> int \<times> int" where
  \<comment> \<open>\<^verbatim>\<open>absDate(abs, true)\<close>: year, month and day of an absolute time in seconds, a
      \<^verbatim>\<open>uint64\<close>; every intermediate value lies between 0 and the argument\<close>
  "absDate a =
     (let d0 = a div 86400;
          n400 = d0 div 146097;
          d1 = d0 - 146097 * n400;
          q100 = d1 div 36524;
          n100 = q100 - q100 div 4;
          d2 = d1 - 36524 * n100;
          n4 = d2 div 1461;
          d3 = d2 - 1461 * n4;
          q1 = d3 div 365;
          n1 = q1 - q1 div 4;
          yday = d3 - 365 * n1;
          y = 400 * n400 + 100 * n100 + 4 * n4 + n1;
          year = y + absoluteZeroYear;
          md = monthDay year yday
      in (year, fst md, snd md))"

definition goDate :: "int64 \<Rightarrow> int \<times> int \<times> int" where
  \<comment> \<open>\<^verbatim>\<open>time.Unix(sec, 0).UTC().Date()\<close>; \<^verbatim>\<open>abs()\<close> is \<^verbatim>\<open>uint64(sec + unixToAbsolute)\<close>\<close>
  "goDate sec = absDate (uint (sec + unixToAbsolute))"

definition daysSinceEpoch :: "int \<Rightarrow> int" where
  \<comment> \<open>called for years from 0 to 9999 only, where \<^verbatim>\<open>uint64(int64(year) - absoluteZeroYear)\<close>
      does not wrap\<close>
  "daysSinceEpoch year =
     (let y0 = year - absoluteZeroYear;
          n400 = y0 div 400;
          y1 = y0 - 400 * n400;
          n100 = y1 div 100;
          y2 = y1 - 100 * n100;
          n4 = y2 div 4;
          y3 = y2 - 4 * n4
      in 146097 * n400 + 36524 * n100 + 1461 * n4 + 365 * y3)"

definition dateUnix :: "int \<Rightarrow> int \<Rightarrow> int \<Rightarrow> int64" where
  \<comment> \<open>\<^verbatim>\<open>time.Date(year, month, day, 0, 0, 0, 0, time.UTC).Unix()\<close> for a month from 1 to 12\<close>
  "dateUnix year month day =
     (let d = daysSinceEpoch year + time_daysBefore ! nat (month - 1)
              + (if isLeap year \<and> month \<ge> 3 then 1 else 0) + (day - 1)
      in word_of_int (d * 86400) - unixToAbsolute)"

definition validDate :: "int \<Rightarrow> int \<Rightarrow> int \<Rightarrow> int64 option" where
  \<comment> \<open>the end of \<^verbatim>\<open>time.Parse\<close> for a layout of a four-digit year, a month and a day
      number: the month must lie in 1..12 and the day in 1..daysIn, else the parse
      fails\<close>
  "validDate year month day =
     (if 1 \<le> month \<and> month \<le> 12 \<and> 1 \<le> day \<and> day \<le> daysIn month year
      then Some (dateUnix year month day) else None)"

definition parseYearMonthDay :: "int \<Rightarrow> int \<Rightarrow> int \<Rightarrow> int64 option" where
  \<comment> \<open>\<^verbatim>\<open>time.Parse("2006-1-2", fmt.Sprintf("%v-%v-%v", year, month, day))\<close>. The layout
      element \<^verbatim>\<open>2006\<close> takes exactly four characters, which must all be digits, so
      the parse fails unless the year is printed with four digits; a month or day that
      is negative or has more than two digits fails as one out of range does.\<close>
  "parseYearMonthDay year month day =
     (if 1000 \<le> year \<and> year \<le> 9999 then validDate year month day else None)"

definition unixOrZero :: "int64 option \<Rightarrow> int64" where
  \<comment> \<open>\<^verbatim>\<open>timeValue, _ := time.Parse(...); timeValue.Unix()\<close>: on an error the value is
      the zero time\<close>
  "unixOrZero r = (case r of Some t \<Rightarrow> t | None \<Rightarrow> zeroTimeUnix)"

section \<open>Data model\<close>

text \<open>
  \<^verbatim>\<open>BaseStruct\<close> is embedded in \<^verbatim>\<open>Tag\<close>, \<^verbatim>\<open>Note\<close> and \<^verbatim>\<open>ReminderData\<close>; the
  constructors \<^verbatim>\<open>NewNote\<close>, \<^verbatim>\<open>NewTag\<close> and \<^verbatim>\<open>BasicTags\<close> fill its fields
  \<^verbatim>\<open>CreatedAt\<close> and \<^verbatim>\<open>UpdatedAt\<close>. (\<^verbatim>\<open>internal/models/note.go\<close> declares
  \<^verbatim>\<open>CreatedAt\<close> on the note itself; one field of that name is kept.) The fields of
  \<^verbatim>\<open>Tag\<close> and \<^verbatim>\<open>Comment\<close> are those their constructors set. \<^verbatim>\<open>Notes\<close> is a slice
  of pointers: a note is identified here with its value.
\<close>

record BaseStruct =
  CreatedAt :: int64
  UpdatedAt :: int64

record Tag = BaseStruct +
  Id_tag :: int
  Slug :: string
  Group :: string

record Comment =
  Text_comment :: string
  CreatedAt_comment :: int64

record Note = BaseStruct +
  Text :: string
  Comments :: "Comment list"
  Status :: string
  TagIds :: "int list"
  CompleteBy :: int64

record User =
  Name :: string
  EmailId :: string

record ReminderData = BaseStruct +
  User_data :: "User option"
  Notes :: "Note list"
  Tags :: "Tag list"
  DataFile :: string
  LastBackupAt :: int64

section \<open>Utilities (\<^verbatim>\<open>package utils\<close>)\<close>

fun IntPresentInSlice :: "int \<Rightarrow> int list \<Rightarrow> bool" where
  "IntPresentInSlice a [] = False"
| "IntPresentInSlice a (b # list) = (if b = a then True else IntPresentInSlice a list)"

fun commonInner :: "int \<Rightarrow> int list \<Rightarrow> int list \<Rightarrow> int list" where
  \<comment> \<open>the inner loop of \<^verbatim>\<open>GetCommonMembersIntSlices\<close>, over \<^verbatim>\<open>arr2\<close>\<close>
  "commonInner e1 [] arr = arr"
| "commonInner e1 (e2 # rest) arr =
     commonInner e1 rest (if e1 = e2 then arr @ [e1] else arr)"

fun commonOuter :: "int list \<Rightarrow> int list \<Rightarrow> int list \<Rightarrow> int list" where
  \<comment> \<open>the outer loop, over \<^verbatim>\<open>arr1\<close>\<close>
  "commonOuter [] arr2 arr = arr"
| "commonOuter (e1 # rest) arr2 arr = commonOuter rest arr2 (commonInner e1 arr2 arr)"

definition GetCommonMembersIntSlices :: "int list \<Rightarrow> int list \<Rightarrow> int list" where
  "GetCommonMembersIntSlices arr1 arr2 = commonOuter arr1 arr2 []"

definition UnixTimestampForCorrespondingCurrentYear :: "int64 \<Rightarrow> int \<Rightarrow> int \<Rightarrow> int64" where
  "UnixTimestampForCorrespondingCurrentYear now month day =
     (let currentYear = fst (goDate now)
      in unixOrZero (parseYearMonthDay currentYear month day))"

definition UnixTimestampForCorrespondingCurrentYearMonth :: "int64 \<Rightarrow> int \<Rightarrow> int64" where
  "UnixTimestampForCorrespondingCurrentYearMonth now day =
     (let currentYear = fst (goDate now);
          currentMonth = fst (snd (goDate now))
      in unixOrZero (parseYearMonthDay currentYear currentMonth day))"

definition IsTimeForRepeatNote ::
  "int64 \<Rightarrow> int64 \<Rightarrow> int64 \<Rightarrow> int64 \<Rightarrow> int64 \<Rightarrow> int64 \<Rightarrow> bool" where
  "IsTimeForRepeatNote now noteTimestampCurrent noteTimestampPrevious noteTimestampNext
       daysBefore daysAfter =
     (let currentTimestamp = now;
          daysSecs = 24 * 60 * 60
      in (word_sle (noteTimestampCurrent - daysBefore * daysSecs) currentTimestamp
            \<and> word_sle currentTimestamp (noteTimestampCurrent + daysAfter * daysSecs))
         \<or> (word_sle (noteTimestampPrevious - daysBefore * daysSecs) currentTimestamp
            \<and> word_sle currentTimestamp (noteTimestampPrevious + daysAfter * daysSecs))
         \<or> (word_sle (noteTimestampNext - daysBefore * daysSecs) currentTimestamp
            \<and> word_sle currentTimestamp (noteTimestampNext + daysAfter * daysSecs)))"

section \<open>Tags and notes\<close>

definition FromSlug :: "Tag list \<Rightarrow> string \<Rightarrow> Tag option" where
  \<comment> \<open>Modelled from the spec: the method \<^verbatim>\<open>Tags.FromSlug\<close> is not among the sources.
      Spec 4.2, \<^verbatim>\<open>lookupBySlug\<close>: exact match, nil if absent. The first tag of the
      registry with the slug is taken.\<close>
  "FromSlug tags slug = find (\<lambda>tag. Slug tag = slug) tags"

definition IdsForGroup :: "Tag list \<Rightarrow> string \<Rightarrow> int list" where
  \<comment> \<open>Modelled from the spec: the method \<^verbatim>\<open>Tags.IdsForGroup\<close> is not among the sources.
      Spec 4.2, \<^verbatim>\<open>idsForGroup\<close>: all tag ids whose group equals the argument.\<close>
  "IdsForGroup tags grp = map Id_tag (filter (\<lambda>tag. Group tag = grp) tags)"

definition TagFromSlug :: "ReminderData \<Rightarrow> string \<Rightarrow> Tag option" where
  "TagFromSlug reminderData slug = FromSlug (Tags reminderData) slug"

definition TagIdsForGroup :: "ReminderData \<Rightarrow> string \<Rightarrow> int list" where
  "TagIdsForGroup reminderData grp = IdsForGroup (Tags reminderData) grp"

fun WithStatus :: "Note list \<Rightarrow> string \<Rightarrow> Note list" where
  "WithStatus [] status = []"
| "WithStatus (note # notes) status =
     (if Status note = status then note # WithStatus notes status
      else WithStatus notes status)"

section \<open>The due-date visibility engine\<close>

definition hasTag :: "Tag option \<Rightarrow> Note \<Rightarrow> bool" where
  \<comment> \<open>\<^verbatim>\<open>(tag != nil) && utils.IntPresentInSlice(tag.Id, note.TagIds)\<close>\<close>
  "hasTag tag note =
     (case tag of None \<Rightarrow> False | Some t \<Rightarrow> IntPresentInSlice (Id_tag t) (TagIds note))"

definition dueDateStep :: "ReminderData \<Rightarrow> int64 \<Rightarrow> int list \<Rightarrow> Note \<Rightarrow> Note list \<Rightarrow> Note list" where
  \<comment> \<open>the body of the loop of \<^verbatim>\<open>NotesApprachingDueDate\<close> for one pending note\<close>
  "dueDateStep reminderData now repeatTagIDs note currentNotes =
     (let noteIDsWithRepeat = GetCommonMembersIntSlices (TagIds note) repeatTagIDs;
          minDay = CompleteBy note - 7 * 24 * 60 * 60;
          currentTimestamp = now;
          currentNotes1 =
            (if length noteIDsWithRepeat = 0 \<and> CompleteBy note \<noteq> 0
                \<and> word_sle minDay currentTimestamp
             then currentNotes @ [note] else currentNotes)
      in if length noteIDsWithRepeat > 0 \<and> CompleteBy note \<noteq> 0 then
           let repeatAnnuallyTag = TagFromSlug reminderData ''repeat-annually'';
               repeatMonthlyTag = TagFromSlug reminderData ''repeat-monthly'';
               currentNotes2 =
                 (if hasTag repeatAnnuallyTag note then
                    let noteMonth = fst (snd (goDate (CompleteBy note)));
                        noteDay = snd (snd (goDate (CompleteBy note)));
                        noteTimestampCurrent =
                          UnixTimestampForCorrespondingCurrentYear now noteMonth noteDay;
                        noteTimestampPrevious = noteTimestampCurrent - 365 * 24 * 60 * 60;
                        noteTimestampNext = noteTimestampCurrent + 365 * 24 * 60 * 60;
                        daysBefore = 3;
                        daysAfter = 7
                    in if IsTimeForRepeatNote now noteTimestampCurrent noteTimestampPrevious
                            noteTimestampNext daysBefore daysAfter
                       then currentNotes1 @ [note] else currentNotes1
                  else currentNotes1)
           in if hasTag repeatMonthlyTag note then
                let noteDay = snd (snd (goDate (CompleteBy note)));
                    noteTimestampCurrent =
                      UnixTimestampForCorrespondingCurrentYearMonth now noteDay;
                    noteTimestampPrevious = noteTimestampCurrent - 30 * 24 * 60 * 60;
                    noteTimestampNext = noteTimestampCurrent + 30 * 24 * 60 * 60;
                    daysBefore = 1;
                    daysAfter = 3
                in if IsTimeForRepeatNote now noteTimestampCurrent noteTimestampPrevious
                        noteTimestampNext daysBefore daysAfter
                   then currentNotes2 @ [note] else currentNotes2
              else currentNotes2
         else currentNotes1)"

fun dueDateLoop :: "ReminderData \<Rightarrow> int64 \<Rightarrow> int list \<Rightarrow> Note list \<Rightarrow> Note list \<Rightarrow> Note list" where
  "dueDateLoop reminderData now repeatTagIDs [] currentNotes = currentNotes"
| "dueDateLoop reminderData now repeatTagIDs (note # pendingNotes) currentNotes =
     dueDateLoop reminderData now repeatTagIDs pendingNotes
       (dueDateStep reminderData now repeatTagIDs note currentNotes)"

definition NotesApprachingDueDate :: "ReminderData \<Rightarrow> int64 \<Rightarrow> Note list" where
  "NotesApprachingDueDate reminderData now =
     (let allNotes = Notes reminderData;
          pendingNotes = WithStatus allNotes ''pending'';
          currentNotes = [];
          repeatTagIDs = TagIdsForGroup reminderData ''repeat''
      in dueDateLoop reminderData now repeatTagIDs pendingNotes currentNotes)"

section \<open>Strings (\<^verbatim>\<open>package strings\<close>, \<^verbatim>\<open>strconv\<close>, \<^verbatim>\<open>path\<close>)\<close>

text \<open>
  Go strings are byte sequences; they are modelled as HOL strings. The model of
  \<^verbatim>\<open>strings.TrimSpace\<close> and \<^verbatim>\<open>strings.ToLower\<close> covers ASCII text: the white
  space trimmed is tab, line feed, vertical tab, form feed, carriage return and space
  (for text with multi-byte runes Go also trims the Unicode spaces and lowers the
  non-ASCII letters).
\<close>

definition isSpace :: "char \<Rightarrow> bool" where
  "isSpace c \<longleftrightarrow> c \<in> set [CHR 0x09, CHR 0x0A, CHR 0x0B, CHR 0x0C, CHR 0x0D, CHR '' '']"

definition TrimString :: "string \<Rightarrow> string" where
  \<comment> \<open>\<^verbatim>\<open>utils.TrimString\<close>, that is \<^verbatim>\<open>strings.TrimSpace\<close>\<close>
  "TrimString str = rev (dropWhile isSpace (rev (dropWhile isSpace str)))"

definition toLowerChar :: "char \<Rightarrow> char" where
  "toLowerChar c =
     (let k = (of_char c :: nat) in if 65 \<le> k \<and> k \<le> 90 then char_of (k + 32) else c)"

definition ToLower :: "string \<Rightarrow> string" where
  "ToLower str = map toLowerChar str"

fun Contains :: "string \<Rightarrow> string \<Rightarrow> bool" where
  \<comment> \<open>\<^verbatim>\<open>strings.Contains(s, substr)\<close>\<close>
  "Contains [] substr = (substr = [])"
| "Contains (c # s) substr =
     (take (length substr) (c # s) = substr \<or> Contains s substr)"

fun extScan :: "string \<Rightarrow> string \<Rightarrow> string" where
  \<comment> \<open>the loop of \<^verbatim>\<open>path.Ext\<close>, from the last byte backwards; the second argument
      holds the bytes already passed\<close>
  "extScan [] passed = []"
| "extScan (c # front) passed =
     (if c = CHR ''/'' then []
      else if c = CHR ''.'' then c # passed
      else extScan front (c # passed))"

definition Ext :: "string \<Rightarrow> string" where
  \<comment> \<open>\<^verbatim>\<open>path.Ext\<close>: the suffix from the last dot of the last path element, or empty\<close>
  "Ext path = extScan (rev path) []"

definition digitChar :: "int \<Rightarrow> char" where
  "digitChar d = ''0123456789'' ! nat d"

function formatDigits :: "int \<Rightarrow> string" where
  "formatDigits u =
     (if u < 10 then [digitChar u] else formatDigits (u div 10) @ [digitChar (u mod 10)])"
  by pat_completeness auto
termination
  by (relation "measure nat") auto

definition FormatInt :: "int64 \<Rightarrow> string" where
  \<comment> \<open>\<^verbatim>\<open>strconv.FormatInt(i, 10)\<close>\<close>
  "FormatInt i =
     (if sint i < 0 then CHR ''-'' # formatDigits (- sint i) else formatDigits (sint i))"

section \<open>\<^verbatim>\<open>time.Parse\<close> with the layout \<^verbatim>\<open>2-1-2006\<close>\<close>

text \<open>
  The layout is a day number of one or two digits, a dash, a month number of one or
  two digits, a dash, and a year of exactly four digits; nothing may follow. Any
  failure makes \<^verbatim>\<open>time.Parse\<close> return an error and the zero time.
\<close>

definition isDigit :: "char \<Rightarrow> bool" where
  "isDigit c \<longleftrightarrow> 48 \<le> (of_char c :: nat) \<and> (of_char c :: nat) \<le> 57"

definition digitVal :: "char \<Rightarrow> int" where
  "digitVal c = int (of_char c) - 48"

fun getnum :: "string \<Rightarrow> (int \<times> string) option" where
  \<comment> \<open>\<^verbatim>\<open>getnum(s, false)\<close>\<close>
  "getnum [] = None"
| "getnum [c] = (if isDigit c then Some (digitVal c, []) else None)"
| "getnum (c # c' # rest) =
     (if \<not> isDigit c then None
      else if \<not> isDigit c' then Some (digitVal c, c' # rest)
      else Some (digitVal c * 10 + digitVal c', rest))"

fun skipDash :: "string \<Rightarrow> string option" where
  \<comment> \<open>\<^verbatim>\<open>skip(value, "-")\<close>\<close>
  "skipDash [] = None"
| "skipDash (c # rest) = (if c = CHR ''-'' then Some rest else None)"

definition longYear :: "string \<Rightarrow> (int \<times> string) option" where
  \<comment> \<open>the layout element \<^verbatim>\<open>2006\<close>: four bytes, the first a digit, read by \<^verbatim>\<open>atoi\<close>,
      which accepts digits only after it\<close>
  "longYear str =
     (if length str < 4 \<or> \<not> isDigit (hd str) then None
      else let p = take 4 str
           in if list_all isDigit p
              then Some (foldl (\<lambda>x c. x * 10 + digitVal c) 0 p, drop 4 str)
              else None)"

definition parseDayMonthYear :: "string \<Rightarrow> int64 option" where
  \<comment> \<open>\<^verbatim>\<open>time.Parse("2-1-2006", text)\<close>\<close>
  "parseDayMonthYear text =
     (case getnum text of None \<Rightarrow> None
      | Some (day, v1) \<Rightarrow>
     (case skipDash v1 of None \<Rightarrow> None
      | Some v2 \<Rightarrow>
     (case getnum v2 of None \<Rightarrow> None
      | Some (month, v3) \<Rightarrow>
        if month \<le> 0 \<or> 12 < month then None else
     (case skipDash v3 of None \<Rightarrow> None
      | Some v4 \<Rightarrow>
     (case longYear v4 of None \<Rightarrow> None
      | Some (year, v5) \<Rightarrow>
        if length v5 \<noteq> 0 then None else validDate year month day)))))"

section \<open>Errors and the file system\<close>

datatype error =
    NoteDueDateEmpty
  | TagAlreadyExists
  | TagSlugEmpty
  | PromptError
  | MarshalError
  | ReadFileError
  | WriteFileError
  | LnError

text \<open>
  \<open>NoteDueDateEmpty\<close>, \<open>TagAlreadyExists\<close> and \<open>TagSlugEmpty\<close> are the errors made
  with \<^verbatim>\<open>errors.New\<close> from the texts "Note's due date is empty", "Tag Already
  Exists" and "Tag's slug is empty"; the others are the errors returned by
  \<^verbatim>\<open>utils.GeneratePrompt\<close>, \<^verbatim>\<open>json.MarshalIndent\<close>, \<^verbatim>\<open>ioutil.ReadFile\<close>,
  \<^verbatim>\<open>ioutil.WriteFile\<close> and the run of \<^verbatim>\<open>ln -sf\<close>.

  The file system is a map from paths to contents, together with what decides the
  outcome of an operation: a read fails when the path holds no file, a write fails
  when the path is not writable, and \<^verbatim>\<open>ln -sf\<close> succeeds or fails as a whole.
  \<^verbatim>\<open>json.MarshalIndent\<close> is a parameter \<open>marshal\<close> of the operations that persist;
  it returns \<open>None\<close> for an error.
\<close>

record world =
  files :: "string \<rightharpoonup> string"
  writable :: "string \<Rightarrow> bool"
  links :: "string \<rightharpoonup> string"
  ln_ok :: bool

definition WriteFile :: "string \<Rightarrow> string \<Rightarrow> world \<Rightarrow> error option \<times> world" where
  "WriteFile filename bytes w =
     (if writable w filename then (None, w\<lparr>files := (files w)(filename \<mapsto> bytes)\<rparr>)
      else (Some WriteFileError, w))"

section \<open>Note mutators (\<^verbatim>\<open>internal/models/note.go\<close>)\<close>

definition UpdateCompleteBy :: "int64 \<Rightarrow> Note \<Rightarrow> string \<Rightarrow> error option \<times> Note" where
  "UpdateCompleteBy now note text =
     (if length (TrimString text) = 0 then (Some NoteDueDateEmpty, note)
      else if text = ''nil'' then
        (None, note\<lparr>CompleteBy := 0, UpdatedAt := now\<rparr>)
      else
        let timeValue = parseDayMonthYear text
        in (None, note\<lparr>CompleteBy := unixOrZero timeValue, UpdatedAt := now\<rparr>))"

definition UpdateStatus :: "int64 \<Rightarrow> Note \<Rightarrow> string \<Rightarrow> int list \<Rightarrow> error option \<times> Note" where
  "UpdateStatus now note status repeatTagIDs =
     (let noteIDsWithRepeat = GetCommonMembersIntSlices (TagIds note) repeatTagIDs
      in if length noteIDsWithRepeat \<noteq> 0 then (None, note)
         else if Status note \<noteq> status then
           (None, note\<lparr>Status := status, UpdatedAt := now\<rparr>)
         else (None, note))"

section \<open>The aggregate: persistence, tag registration, backup\<close>

definition UpdateDataFile ::
  "(ReminderData \<Rightarrow> string option) \<Rightarrow> int64 \<Rightarrow> ReminderData \<Rightarrow> world
     \<Rightarrow> error option \<times> ReminderData \<times> world" where
  "UpdateDataFile marshal now reminderData w =
     (let reminderData1 = reminderData\<lparr>UpdatedAt := now\<rparr>
      in case marshal reminderData1 of
           None \<Rightarrow> (Some MarshalError, reminderData1, w)
         | Some byteValue \<Rightarrow>
             (case WriteFile (DataFile reminderData1) byteValue w of
                (Some err, w1) \<Rightarrow> (Some err, reminderData1, w1)
              | (None, w1) \<Rightarrow> (None, reminderData1, w1)))"

definition BasicTags :: "int64 \<Rightarrow> Tag list" where
  "BasicTags now =
     map (\<lambda>(index, slug, grp).
            \<lparr>CreatedAt = now, UpdatedAt = now, Id_tag = index, Slug = slug, Group = grp\<rparr>)
       [(0, ''current'', []),
        (1, ''priority-urgent'', ''priority''),
        (2, ''priority-medium'', ''priority''),
        (3, ''priority-low'', ''priority''),
        (4, ''repeat-annually'', ''repeat''),
        (5, ''repeat-monthly'', ''repeat''),
        (6, ''tips'', ''tips'')]"

definition NewTag ::
  "int64 \<Rightarrow> int \<Rightarrow> string \<Rightarrow> string \<Rightarrow> string \<times> error option \<Rightarrow> string \<times> error option
     \<Rightarrow> Tag \<times> error option" where
  \<comment> \<open>the last two parameters are what \<^verbatim>\<open>utils.GeneratePrompt("tag_slug", "")\<close> and
      \<^verbatim>\<open>utils.GeneratePrompt("tag_group", "")\<close> return when they are called\<close>
  "NewTag now tagID useSlug useGroup promptSlug promptGroup =
     (let tag = \<lparr>CreatedAt = now, UpdatedAt = now, Id_tag = tagID, Slug = [], Group = []\<rparr>
      in if useSlug = [] \<and> (snd promptSlug \<noteq> None \<or> Contains (Slug tag) ''^C'')
         then (tag, snd promptSlug)
         else
           let tagSlug = (if useSlug = [] then fst promptSlug else useSlug);
               tag1 = tag\<lparr>Slug := ToLower (TrimString tagSlug)\<rparr>
           in if length (TrimString (Slug tag1)) = 0 then (tag1, Some TagSlugEmpty)
              else if useGroup = [] \<and> snd promptGroup \<noteq> None then (tag1, snd promptGroup)
              else
                let tagGroup = (if useGroup = [] then fst promptGroup else useGroup)
                in (tag1\<lparr>Group := ToLower tagGroup\<rparr>, None))"

definition nextPossibleTagId :: "ReminderData \<Rightarrow> int" where
  "nextPossibleTagId reminderData = int (length (Tags reminderData))"

fun slugScan :: "Tag list \<Rightarrow> string \<Rightarrow> bool \<Rightarrow> bool" where
  \<comment> \<open>the loop of \<^verbatim>\<open>newTagAppend\<close>; the last argument is \<^verbatim>\<open>isNewSlug\<close>\<close>
  "slugScan [] slug isNewSlug = isNewSlug"
| "slugScan (existingTag # rest) slug isNewSlug =
     slugScan rest slug (if Slug existingTag = slug then False else isNewSlug)"

definition newTagAppend ::
  "(ReminderData \<Rightarrow> string option) \<Rightarrow> int64 \<Rightarrow> Tag \<Rightarrow> ReminderData \<Rightarrow> world
     \<Rightarrow> error option \<times> ReminderData \<times> world" where
  "newTagAppend marshal now tag reminderData w =
     (let isNewSlug = slugScan (Tags reminderData) (Slug tag) True
      in if \<not> isNewSlug then (Some TagAlreadyExists, reminderData, w)
         else UpdateDataFile marshal now
                (reminderData\<lparr>Tags := Tags reminderData @ [tag]\<rparr>) w)"

definition NewTagRegistration ::
  "(ReminderData \<Rightarrow> string option) \<Rightarrow> int64 \<Rightarrow> string \<times> error option \<Rightarrow> string \<times> error option
     \<Rightarrow> ReminderData \<Rightarrow> world \<Rightarrow> (int \<times> error option) \<times> ReminderData \<times> world" where
  "NewTagRegistration marshal now promptSlug promptGroup reminderData w =
     (let tagID = nextPossibleTagId reminderData
      in case NewTag now tagID [] [] promptSlug promptGroup of
           (tag, Some err) \<Rightarrow> ((0, Some err), reminderData, w)
         | (tag, None) \<Rightarrow>
             (case newTagAppend marshal now tag reminderData w of
                (err, reminderData1, w1) \<Rightarrow> ((tagID, err), reminderData1, w1)))"

definition CreateBackup :: "int64 \<Rightarrow> ReminderData \<Rightarrow> world \<Rightarrow> (string \<times> error option) \<times> world" where
  "CreateBackup now reminderData w =
     (let ext = Ext (DataFile reminderData);
          stem = take (length (DataFile reminderData) - length ext) (DataFile reminderData);
          dstFile = stem @ ''_backup_'' @ FormatInt now @ ext;
          lnFile = stem @ ''_backup_latest'' @ ext
      in case files w (DataFile reminderData) of
           None \<Rightarrow> ((dstFile, Some ReadFileError), w)
         | Some byteValue \<Rightarrow>
             (case WriteFile dstFile byteValue w of
                (Some err, w1) \<Rightarrow> ((dstFile, Some err), w1)
              | (None, w1) \<Rightarrow>
                  if \<not> ln_ok w1 then ((dstFile, Some LnError), w1)
                  else ((dstFile, None), w1\<lparr>links := (links w1)(lnFile \<mapsto> dstFile)\<rparr>)))"

definition AutoBackup ::
  "(ReminderData \<Rightarrow> string option) \<Rightarrow> int64 \<Rightarrow> int64 \<Rightarrow> ReminderData \<Rightarrow> world
     \<Rightarrow> (string \<times> error option) \<times> ReminderData \<times> world" where
  "AutoBackup marshal now gapSecs reminderData w =
     (let currentTime = now;
          lastBackup = LastBackupAt reminderData;
          gap = currentTime - lastBackup
      in if word_sless gap gapSecs then (([], None), reminderData, w)
         else
           case CreateBackup now reminderData w of
             ((dstFile, _), w1) \<Rightarrow>
               (case UpdateDataFile marshal now
                       (reminderData\<lparr>LastBackupAt := currentTime\<rparr>) w1 of
                  (err, reminderData1, w2) \<Rightarrow> ((dstFile, err), reminderData1, w2)))"

section \<open>The vocabulary of the specification\<close>

text \<open>
  The definitions of this section follow the words of the specification, not the
  source; the theorems below compare them with the definitions taken from the source.
\<close>

definition inWindow :: "int64 \<Rightarrow> int64 \<Rightarrow> int64 \<Rightarrow> int64 \<Rightarrow> bool" where
  \<comment> \<open>"now" lies within [occurrence - secsBefore, occurrence + secsAfter], both ends
      included\<close>
  "inWindow now occurrence secsBefore secsAfter \<longleftrightarrow>
     word_sle (occurrence - secsBefore) now \<and> word_sle now (occurrence + secsAfter)"

definition carriesRepeatGroup :: "ReminderData \<Rightarrow> Note \<Rightarrow> bool" where
  \<comment> \<open>the note carries the id of some tag of the group "repeat"\<close>
  "carriesRepeatGroup rd n \<longleftrightarrow>
     set (TagIds n) \<inter> set (TagIdsForGroup rd ''repeat'') \<noteq> {}"

definition carriesSlug :: "ReminderData \<Rightarrow> string \<Rightarrow> Note \<Rightarrow> bool" where
  \<comment> \<open>a tag with the slug is registered, and the note carries its id\<close>
  "carriesSlug rd slug n \<longleftrightarrow>
     (case TagFromSlug rd slug of None \<Rightarrow> False | Some t \<Rightarrow> Id_tag t \<in> set (TagIds n))"

definition noteMonth :: "Note \<Rightarrow> int" where
  "noteMonth n = fst (snd (goDate (CompleteBy n)))"

definition noteDay :: "Note \<Rightarrow> int" where
  "noteDay n = snd (snd (goDate (CompleteBy n)))"

definition annualWindow :: "int64 \<Rightarrow> Note \<Rightarrow> bool" where
  \<comment> \<open>the annual policy as amended: the occurrences are the month and day of
      \<open>completeBy\<close> in the current year, and that instant minus and plus 365 days\<close>
  "annualWindow now n \<longleftrightarrow>
     inWindow now (UnixTimestampForCorrespondingCurrentYear now (noteMonth n) (noteDay n))
       (3 * 86400) (7 * 86400)
     \<or> inWindow now
          (UnixTimestampForCorrespondingCurrentYear now (noteMonth n) (noteDay n) - 365 * 86400)
          (3 * 86400) (7 * 86400)
     \<or> inWindow now
          (UnixTimestampForCorrespondingCurrentYear now (noteMonth n) (noteDay n) + 365 * 86400)
          (3 * 86400) (7 * 86400)"

definition yearOccurrence :: "int \<Rightarrow> Note \<Rightarrow> int64" where
  \<comment> \<open>the month and day of \<open>completeBy\<close> projected onto a given year\<close>
  "yearOccurrence year n = unixOrZero (parseYearMonthDay year (noteMonth n) (noteDay n))"

definition annualWindowAsClaimed :: "int64 \<Rightarrow> Note \<Rightarrow> bool" where
  \<comment> \<open>the annual policy in the words of claim C1: the occurrences are the projections
      onto the previous year, the current year and the next year\<close>
  "annualWindowAsClaimed now n \<longleftrightarrow>
     inWindow now (yearOccurrence (fst (goDate now) - 1) n) (3 * 86400) (7 * 86400)
     \<or> inWindow now (yearOccurrence (fst (goDate now)) n) (3 * 86400) (7 * 86400)
     \<or> inWindow now (yearOccurrence (fst (goDate now) + 1) n) (3 * 86400) (7 * 86400)"

definition monthlyWindow :: "int64 \<Rightarrow> Note \<Rightarrow> bool" where
  \<comment> \<open>the monthly policy: the occurrences are the day of the month of \<open>completeBy\<close>
      in the current month, and that instant minus and plus 30 days\<close>
  "monthlyWindow now n \<longleftrightarrow>
     inWindow now (UnixTimestampForCorrespondingCurrentYearMonth now (noteDay n))
       (1 * 86400) (3 * 86400)
     \<or> inWindow now (UnixTimestampForCorrespondingCurrentYearMonth now (noteDay n) - 30 * 86400)
          (1 * 86400) (3 * 86400)
     \<or> inWindow now (UnixTimestampForCorrespondingCurrentYearMonth now (noteDay n) + 30 * 86400)
          (1 * 86400) (3 * 86400)"

definition surfaces :: "ReminderData \<Rightarrow> int64 \<Rightarrow> Note \<Rightarrow> bool" where
  \<comment> \<open>the three policies together, for one pending note\<close>
  "surfaces rd now n \<longleftrightarrow> CompleteBy n \<noteq> 0 \<and>
     (if carriesRepeatGroup rd n
      then (carriesSlug rd ''repeat-annually'' n \<and> annualWindow now n)
           \<or> (carriesSlug rd ''repeat-monthly'' n \<and> monthlyWindow now n)
      else word_sle (CompleteBy n - 7 * 86400) now)"

section \<open>Example data\<close>

definition exampleNote :: "int list \<Rightarrow> int64 \<Rightarrow> Note" where
  "exampleNote tagIDs completeBy =
     \<lparr>CreatedAt = 1700000000, UpdatedAt = 1700000000, Text = ''Renew passport'',
      Comments = [], Status = ''pending'', TagIds = tagIDs, CompleteBy = completeBy\<rparr>"

definition exampleData :: "Note list \<Rightarrow> ReminderData" where
  \<comment> \<open>an aggregate seeded with the basic tags: \<open>repeat-annually\<close> has id 4 and
      \<open>repeat-monthly\<close> id 5\<close>
  "exampleData ns =
     \<lparr>CreatedAt = 1700000000, UpdatedAt = 1700000000, User_data = None, Notes = ns,
      Tags = BasicTags 1700000000, DataFile = ''/home/u/data.json'',
      LastBackupAt = 1700000000\<rparr>"

definition exampleWorld :: world where
  "exampleWorld =
     \<lparr>files = [''/home/u/data.json'' \<mapsto> ''{}''], writable = (\<lambda>p. True),
      links = Map.empty, ln_ok = True\<rparr>"

definition exampleMarshal :: "ReminderData \<Rightarrow> string option" where
  "exampleMarshal rd = Some (''tags:'' @ concat (map Slug (Tags rd)))"

definition exampleCustomData :: "Note list \<Rightarrow> ReminderData" where
  \<comment> \<open>the same aggregate after the registration of a tag \<open>repeat-weekly\<close> in the
      group \<open>repeat\<close>\<close>
  "exampleCustomData ns =
     (exampleData ns)\<lparr>Tags := BasicTags 1700000000 @
        [\<lparr>CreatedAt = 1700000000, UpdatedAt = 1700000000, Id_tag = 7,
          Slug = ''repeat-weekly'', Group = ''repeat''\<rparr>]\<rparr>"

section \<open>Lemmas about the utilities and the loop of the engine\<close>

lemma IntPresentInSlice_set: "IntPresentInSlice a list \<longleftrightarrow> a \<in> set list"
  by (induction list) auto

lemma set_commonInner:
  "set (commonInner e1 arr2 arr) = set arr \<union> (if e1 \<in> set arr2 then {e1} else {})"
  by (induction arr2 arbitrary: arr) auto

lemma set_commonOuter:
  "set (commonOuter arr1 arr2 arr) = set arr \<union> (set arr1 \<inter> set arr2)"
  by (induction arr1 arbitrary: arr) (auto simp: set_commonInner)

lemma set_GetCommonMembersIntSlices:
  "set (GetCommonMembersIntSlices arr1 arr2) = set arr1 \<inter> set arr2"
  by (simp add: GetCommonMembersIntSlices_def set_commonOuter)

lemma GetCommonMembersIntSlices_empty:
  "GetCommonMembersIntSlices arr1 arr2 = [] \<longleftrightarrow> set arr1 \<inter> set arr2 = {}"
  using set_GetCommonMembersIntSlices [of arr1 arr2] by (metis set_empty)

lemma set_WithStatus: "set (WithStatus ns status) = {n \<in> set ns. Status n = status}"
  by (induction ns) auto

lemma hasTag_carriesSlug: "hasTag (TagFromSlug rd slug) n = carriesSlug rd slug n"
  by (simp add: hasTag_def carriesSlug_def IntPresentInSlice_set split: option.splits)

lemma IsTimeForRepeatNote_windows:
  "IsTimeForRepeatNote now c p nx b a
   = (inWindow now c (b * 86400) (a * 86400)
         \<or> inWindow now p (b * 86400) (a * 86400)
         \<or> inWindow now nx (b * 86400) (a * 86400))"
  by (simp add: IsTimeForRepeatNote_def inWindow_def)

lemma set_dueDateStep:
  "set (dueDateStep rd now (TagIdsForGroup rd ''repeat'') note cur)
   = set cur \<union> (if surfaces rd now note then {note} else {})"
  unfolding dueDateStep_def surfaces_def
  by (auto simp add: Let_def GetCommonMembersIntSlices_empty carriesRepeatGroup_def
        hasTag_carriesSlug IsTimeForRepeatNote_windows
        annualWindow_def monthlyWindow_def noteMonth_def noteDay_def)

lemma set_dueDateLoop:
  "set (dueDateLoop rd now (TagIdsForGroup rd ''repeat'') ns cur)
   = set cur \<union> {n \<in> set ns. surfaces rd now n}"
  by (induction ns arbitrary: cur) (auto simp: set_dueDateStep)

lemma set_NotesApprachingDueDate:
  "set (NotesApprachingDueDate rd now)
   = {n \<in> set (Notes rd). Status n = ''pending'' \<and> surfaces rd now n}"
  by (auto simp: NotesApprachingDueDate_def set_dueDateLoop set_WithStatus)

lemma repeat_tag_carriesRepeatGroup:
  assumes "TagFromSlug rd slug = Some t" and "Group t = ''repeat''"
    and "Id_tag t \<in> set (TagIds n)"
  shows "carriesRepeatGroup rd n"
proof -
  from assms(1) have "t \<in> set (Tags rd)"
    by (auto simp: TagFromSlug_def FromSlug_def find_Some_iff)
  with assms(2) have "Id_tag t \<in> set (TagIdsForGroup rd ''repeat'')"
    by (auto simp: TagIdsForGroup_def IdsForGroup_def)
  with assms(3) show ?thesis
    by (auto simp: carriesRepeatGroup_def)
qed

lemma minDay_no_wrap:
  assumes "- (2 ^ 63) + 604800 \<le> sint (c :: int64)"
  shows "word_sle (c - 7 * 86400) now \<longleftrightarrow> sint c - 604800 \<le> sint now"
proof -
  have "sint c < 2 ^ 63"
    using sint_lt [of c] by simp
  with assms have "signed_take_bit 63 (sint c - 604800) = sint c - 604800"
    by (intro signed_take_bit_int_eq_self) auto
  then have "sint (c - 604800) = sint c - 604800"
    by (simp add: sint_word_ariths)
  then show ?thesis
    by (simp add: word_sle_eq)
qed

section \<open>The due-date visibility engine: the claims\<close>

text \<open>
  Claim C1, as amended. A pending note of the store with \<open>completeBy \<noteq> 0\<close> that
  carries a tag of the repeat group and the tag \<open>repeat-annually\<close> is selected
  exactly when "now" lies within [occurrence - 3 days, occurrence + 7 days], ends
  included, for one of three occurrences: the month and day of \<open>completeBy\<close> in the
  current year, that instant minus 365 days, and that instant plus 365 days; or when
  the note carries \<open>repeat-monthly\<close> as well and "now" lies in a monthly window.
\<close>

theorem annual_recurrence_visibility:
  assumes "n \<in> set (Notes rd)" and "Status n = ''pending''" and "CompleteBy n \<noteq> 0"
    and "carriesRepeatGroup rd n" and "carriesSlug rd ''repeat-annually'' n"
  shows "n \<in> set (NotesApprachingDueDate rd now) \<longleftrightarrow>
           annualWindow now n \<or> (carriesSlug rd ''repeat-monthly'' n \<and> monthlyWindow now n)"
  using assms by (simp add: set_NotesApprachingDueDate surfaces_def)

text \<open>
  A note due on 10 March 2020, tagged \<open>current\<close> and \<open>repeat-annually\<close>, on
  8 March 2024 at 00:00:00 UTC.
\<close>

theorem annual_recurrence_visibility_witness:
  "exampleNote [0, 4] 1583798400 \<in> set (Notes (exampleData [exampleNote [0, 4] 1583798400]))
   \<and> Status (exampleNote [0, 4] 1583798400) = ''pending''
   \<and> CompleteBy (exampleNote [0, 4] 1583798400) \<noteq> 0
   \<and> carriesRepeatGroup (exampleData [exampleNote [0, 4] 1583798400])
        (exampleNote [0, 4] 1583798400)
   \<and> carriesSlug (exampleData [exampleNote [0, 4] 1583798400]) ''repeat-annually''
        (exampleNote [0, 4] 1583798400)
   \<and> annualWindow 1709856000 (exampleNote [0, 4] 1583798400)
   \<and> exampleNote [0, 4] 1583798400
        \<in> set (NotesApprachingDueDate (exampleData [exampleNote [0, 4] 1583798400]) 1709856000)"
proof -
  have h1: "exampleNote [0, 4] 1583798400
              \<in> set (Notes (exampleData [exampleNote [0, 4] 1583798400]))"
    by code_simp
  have h2: "Status (exampleNote [0, 4] 1583798400) = ''pending''"
    by code_simp
  have h3: "CompleteBy (exampleNote [0, 4] 1583798400) \<noteq> 0"
    by code_simp
  have h4: "carriesRepeatGroup (exampleData [exampleNote [0, 4] 1583798400])
              (exampleNote [0, 4] 1583798400)"
    by code_simp
  have h5: "carriesSlug (exampleData [exampleNote [0, 4] 1583798400]) ''repeat-annually''
              (exampleNote [0, 4] 1583798400)"
    by code_simp
  have h6: "annualWindow 1709856000 (exampleNote [0, 4] 1583798400)"
    by code_simp
  from annual_recurrence_visibility [OF h1 h2 h3 h4 h5, of 1709856000] h6
  have "exampleNote [0, 4] 1583798400
          \<in> set (NotesApprachingDueDate (exampleData [exampleNote [0, 4] 1583798400]) 1709856000)"
    by blast
  with h1 h2 h3 h4 h5 h6 show ?thesis
    by blast
qed

text \<open>
  Claim C1 as it is stated fails on the code. First input: a note due on 30 December
  2020, tagged \<open>repeat-annually\<close>, on 6 January 2024 at 12:00:00 UTC. The code takes
  30 December 2024 minus 365 days, which is 31 December 2023 since 2024 is a leap
  year, so its window ends on 7 January 2024 and the note is selected; the window of
  the projection onto 2023 ends on 6 January 2024 at 00:00:00. Second input: a note
  due on 10 March 2020 that carries \<open>repeat-annually\<close> and \<open>repeat-monthly\<close>, on
  10 May 2024 at 12:00:00 UTC: it is selected by the monthly check, outside every
  annual window.
\<close>

theorem annual_recurrence_visibility_counterexample:
  "Status (exampleNote [0, 4] 1609286400) = ''pending''
   \<and> carriesSlug (exampleData [exampleNote [0, 4] 1609286400]) ''repeat-annually''
        (exampleNote [0, 4] 1609286400)
   \<and> NotesApprachingDueDate (exampleData [exampleNote [0, 4] 1609286400]) 1704542400
       = [exampleNote [0, 4] 1609286400]
   \<and> \<not> annualWindowAsClaimed 1704542400 (exampleNote [0, 4] 1609286400)
   \<and> carriesSlug (exampleData [exampleNote [4, 5] 1583798400]) ''repeat-annually''
        (exampleNote [4, 5] 1583798400)
   \<and> NotesApprachingDueDate (exampleData [exampleNote [4, 5] 1583798400]) 1715342400
       = [exampleNote [4, 5] 1583798400]
   \<and> \<not> annualWindowAsClaimed 1715342400 (exampleNote [4, 5] 1583798400)
   \<and> \<not> annualWindow 1715342400 (exampleNote [4, 5] 1583798400)"
  by code_simp

text \<open>
  Claim C2, as amended. A pending note of the store with \<open>completeBy \<noteq> 0\<close> that
  carries a tag of the repeat group and the tag \<open>repeat-monthly\<close> is selected exactly
  when "now" lies within [occurrence - 1 day, occurrence + 3 days], ends included,
  for one of three occurrences: the day of the month of \<open>completeBy\<close> in the current
  month, that instant minus 30 days, and that instant plus 30 days; or when the note
  carries \<open>repeat-annually\<close> as well and "now" lies in an annual window.
\<close>

theorem monthly_recurrence_visibility:
  assumes "n \<in> set (Notes rd)" and "Status n = ''pending''" and "CompleteBy n \<noteq> 0"
    and "carriesRepeatGroup rd n" and "carriesSlug rd ''repeat-monthly'' n"
  shows "n \<in> set (NotesApprachingDueDate rd now) \<longleftrightarrow>
           monthlyWindow now n \<or> (carriesSlug rd ''repeat-annually'' n \<and> annualWindow now n)"
  using assms by (auto simp add: set_NotesApprachingDueDate surfaces_def)

text \<open>
  A note due on 15 March 2020, tagged \<open>repeat-monthly\<close>, on 18 April 2023 at
  00:00:00 UTC, three days after the 15th, and on 20 April 2023.
\<close>

theorem monthly_recurrence_visibility_witness:
  "exampleNote [5] 1584230400 \<in> set (Notes (exampleData [exampleNote [5] 1584230400]))
   \<and> Status (exampleNote [5] 1584230400) = ''pending''
   \<and> CompleteBy (exampleNote [5] 1584230400) \<noteq> 0
   \<and> carriesRepeatGroup (exampleData [exampleNote [5] 1584230400]) (exampleNote [5] 1584230400)
   \<and> carriesSlug (exampleData [exampleNote [5] 1584230400]) ''repeat-monthly''
        (exampleNote [5] 1584230400)
   \<and> monthlyWindow 1681776000 (exampleNote [5] 1584230400)
   \<and> exampleNote [5] 1584230400
        \<in> set (NotesApprachingDueDate (exampleData [exampleNote [5] 1584230400]) 1681776000)
   \<and> exampleNote [5] 1584230400
        \<notin> set (NotesApprachingDueDate (exampleData [exampleNote [5] 1584230400]) 1681948800)"
proof -
  have h1: "exampleNote [5] 1584230400 \<in> set (Notes (exampleData [exampleNote [5] 1584230400]))"
    by code_simp
  have h2: "Status (exampleNote [5] 1584230400) = ''pending''"
    by code_simp
  have h3: "CompleteBy (exampleNote [5] 1584230400) \<noteq> 0"
    by code_simp
  have h4: "carriesRepeatGroup (exampleData [exampleNote [5] 1584230400])
              (exampleNote [5] 1584230400)"
    by code_simp
  have h5: "carriesSlug (exampleData [exampleNote [5] 1584230400]) ''repeat-monthly''
              (exampleNote [5] 1584230400)"
    by code_simp
  have h6: "monthlyWindow 1681776000 (exampleNote [5] 1584230400)"
    by code_simp
  have h7: "\<not> monthlyWindow 1681948800 (exampleNote [5] 1584230400)"
    by code_simp
  have h8: "\<not> carriesSlug (exampleData [exampleNote [5] 1584230400]) ''repeat-annually''
              (exampleNote [5] 1584230400)"
    by code_simp
  from monthly_recurrence_visibility [OF h1 h2 h3 h4 h5, of 1681776000] h6
  have a: "exampleNote [5] 1584230400
          \<in> set (NotesApprachingDueDate (exampleData [exampleNote [5] 1584230400]) 1681776000)"
    by blast
  from monthly_recurrence_visibility [OF h1 h2 h3 h4 h5, of 1681948800] h7 h8
  have b: "exampleNote [5] 1584230400
          \<notin> set (NotesApprachingDueDate (exampleData [exampleNote [5] 1584230400]) 1681948800)"
    by blast
  from h1 h2 h3 h4 h5 h6 a b show ?thesis
    by blast
qed

text \<open>
  Claim C2 as it is stated fails on the code: a note due on 10 March 2020 that
  carries \<open>repeat-annually\<close> and \<open>repeat-monthly\<close> is selected on 15 March 2024 at
  12:00:00 UTC by the annual check, outside every monthly window.
\<close>

theorem monthly_recurrence_visibility_counterexample:
  "Status (exampleNote [4, 5] 1583798400) = ''pending''
   \<and> carriesSlug (exampleData [exampleNote [4, 5] 1583798400]) ''repeat-monthly''
        (exampleNote [4, 5] 1583798400)
   \<and> NotesApprachingDueDate (exampleData [exampleNote [4, 5] 1583798400]) 1710504000
       = [exampleNote [4, 5] 1583798400]
   \<and> \<not> monthlyWindow 1710504000 (exampleNote [4, 5] 1583798400)"
  by code_simp

text \<open>
  Claim C3. A pending note of the store with \<open>completeBy \<noteq> 0\<close> and no tag of the
  repeat group is selected exactly when \<open>now \<ge> completeBy - 7 days\<close>, the
  subtraction and the comparison being those of \<^verbatim>\<open>int64\<close>; there is no upper bound.
  Where the subtraction does not wrap around, this is the comparison of the integers.
\<close>

theorem plain_due_date_visibility:
  assumes "n \<in> set (Notes rd)" and "Status n = ''pending''" and "CompleteBy n \<noteq> 0"
    and "\<not> carriesRepeatGroup rd n"
  shows "(n \<in> set (NotesApprachingDueDate rd now)
            \<longleftrightarrow> word_sle (CompleteBy n - 7 * 86400) now)
         \<and> (- (2 ^ 63) + 604800 \<le> sint (CompleteBy n) \<longrightarrow>
              (n \<in> set (NotesApprachingDueDate rd now)
                 \<longleftrightarrow> sint (CompleteBy n) - 604800 \<le> sint now))"
proof -
  from assms have sel: "n \<in> set (NotesApprachingDueDate rd now)
      \<longleftrightarrow> word_sle (CompleteBy n - 7 * 86400) now"
    by (simp add: set_NotesApprachingDueDate surfaces_def)
  then show ?thesis
    using minDay_no_wrap [of "CompleteBy n" now] by blast
qed

text \<open>
  A note due on 10 March 2024, tagged \<open>current\<close>, 1000 days later.
\<close>

theorem plain_due_date_visibility_witness:
  "exampleNote [0] 1710028800 \<in> set (Notes (exampleData [exampleNote [0] 1710028800]))
   \<and> Status (exampleNote [0] 1710028800) = ''pending''
   \<and> CompleteBy (exampleNote [0] 1710028800) \<noteq> 0
   \<and> \<not> carriesRepeatGroup (exampleData [exampleNote [0] 1710028800])
          (exampleNote [0] 1710028800)
   \<and> - (2 ^ 63) + 604800 \<le> sint (CompleteBy (exampleNote [0] 1710028800))
   \<and> sint (CompleteBy (exampleNote [0] 1710028800)) - 604800 \<le> sint (1796428800 :: int64)
   \<and> exampleNote [0] 1710028800
        \<in> set (NotesApprachingDueDate (exampleData [exampleNote [0] 1710028800]) 1796428800)"
proof -
  have h1: "exampleNote [0] 1710028800 \<in> set (Notes (exampleData [exampleNote [0] 1710028800]))"
    by code_simp
  have h2: "Status (exampleNote [0] 1710028800) = ''pending''"
    by code_simp
  have h3: "CompleteBy (exampleNote [0] 1710028800) \<noteq> 0"
    by code_simp
  have h4: "\<not> carriesRepeatGroup (exampleData [exampleNote [0] 1710028800])
              (exampleNote [0] 1710028800)"
    by code_simp
  have h5: "- (2 ^ 63) + 604800 \<le> sint (CompleteBy (exampleNote [0] 1710028800))"
    by (simp add: exampleNote_def)
  have h6: "sint (CompleteBy (exampleNote [0] 1710028800)) - 604800
              \<le> sint (1796428800 :: int64)"
    by (simp add: exampleNote_def)
  from plain_due_date_visibility [OF h1 h2 h3 h4, of 1796428800] h5 h6
  have "exampleNote [0] 1710028800
          \<in> set (NotesApprachingDueDate (exampleData [exampleNote [0] 1710028800]) 1796428800)"
    by blast
  with h1 h2 h3 h4 h5 h6 show ?thesis
    by blast
qed

text \<open>
  Claim C4. A note with \<open>completeBy = 0\<close> is never selected, whatever its tags, its
  status and "now".
\<close>

theorem no_due_date_never_selected:
  "CompleteBy n = 0 \<Longrightarrow> n \<notin> set (NotesApprachingDueDate rd now)"
  by (simp add: set_NotesApprachingDueDate surfaces_def)

theorem no_due_date_never_selected_witness:
  "CompleteBy (exampleNote [4, 5] 0) = 0
   \<and> exampleNote [4, 5] 0
        \<notin> set (NotesApprachingDueDate (exampleData [exampleNote [4, 5] 0]) 1710028800)"
proof -
  have h: "CompleteBy (exampleNote [4, 5] 0) = 0"
    by code_simp
  from no_due_date_never_selected [OF h] h show ?thesis
    by blast
qed

text \<open>
  Claim C9. A note that carries a tag of the repeat group, but neither the id of the
  tag with slug \<open>repeat-annually\<close> nor the id of the tag with slug \<open>repeat-monthly\<close>,
  is never selected.
\<close>

theorem other_repeat_tag_never_selected:
  assumes "carriesRepeatGroup rd n"
    and "\<not> carriesSlug rd ''repeat-annually'' n" and "\<not> carriesSlug rd ''repeat-monthly'' n"
  shows "n \<notin> set (NotesApprachingDueDate rd now)"
  using assms by (simp add: set_NotesApprachingDueDate surfaces_def)

text \<open>
  A note due on 10 March 2024 whose only tag is \<open>repeat-weekly\<close>, registered in the
  group \<open>repeat\<close> with id 7, on its due date.
\<close>

theorem other_repeat_tag_never_selected_witness:
  "carriesRepeatGroup (exampleCustomData [exampleNote [7] 1710028800])
     (exampleNote [7] 1710028800)
   \<and> \<not> carriesSlug (exampleCustomData [exampleNote [7] 1710028800]) ''repeat-annually''
          (exampleNote [7] 1710028800)
   \<and> \<not> carriesSlug (exampleCustomData [exampleNote [7] 1710028800]) ''repeat-monthly''
          (exampleNote [7] 1710028800)
   \<and> Status (exampleNote [7] 1710028800) = ''pending''
   \<and> CompleteBy (exampleNote [7] 1710028800) \<noteq> 0
   \<and> exampleNote [7] 1710028800
        \<notin> set (NotesApprachingDueDate (exampleCustomData [exampleNote [7] 1710028800])
                 1710028800)"
proof -
  have h1: "carriesRepeatGroup (exampleCustomData [exampleNote [7] 1710028800])
              (exampleNote [7] 1710028800)"
    by code_simp
  have h2: "\<not> carriesSlug (exampleCustomData [exampleNote [7] 1710028800]) ''repeat-annually''
              (exampleNote [7] 1710028800)"
    by code_simp
  have h3: "\<not> carriesSlug (exampleCustomData [exampleNote [7] 1710028800]) ''repeat-monthly''
              (exampleNote [7] 1710028800)"
    by code_simp
  have h4: "Status (exampleNote [7] 1710028800) = ''pending''"
    by code_simp
  have h5: "CompleteBy (exampleNote [7] 1710028800) \<noteq> 0"
    by code_simp
  from other_repeat_tag_never_selected [OF h1 h2 h3] h1 h2 h3 h4 h5 show ?thesis
    by blast
qed

end
